theory Spec2Isabelle
  imports Complex_Main
begin

section \<open>Values of the Python programs\<close>

text \<open>
  Both handlers move JSON values around. A Python float is kept apart from an
  integer because its truth value is decided differently from its printed form:
  the two zeros \<open>0.0\<close> and \<open>-0.0\<close> are both \<open>Finite 0\<close>, and the three
  non-numbers that \<open>json.loads\<close> accepts are constructors of their own.
\<close>

datatype pyfloat = Finite rat | PosInf | NegInf | NaN

text \<open>
  A JSON object keeps its members in the order of the text, duplicates
  included; the lookup below resolves them the way the decoded \<open>dict\<close> does.
\<close>

datatype json =
    JNull
  | JBool bool
  | JInt int
  | JFloat pyfloat
  | JStr string
  | JArr "json list"
  | JObj "(string \<times> json) list"

text \<open>
  An exception is an instance of Python's \<open>Exception\<close>: its class name and the
  text \<open>str(e)\<close> gives. The signals that only derive from \<open>BaseException\<close>
  (interpreter exit, keyboard interrupt) are no part of this type.
\<close>

datatype pyexn = PyExn (exn_class: string) (str: string)

text \<open>Truth value of a decoded JSON value, as \<open>not message\<close> tests it.\<close>

fun truthy :: "json \<Rightarrow> bool" where
  "truthy JNull = False"
| "truthy (JBool b) = b"
| "truthy (JInt i) = (i \<noteq> 0)"
| "truthy (JFloat f) = (f \<noteq> Finite 0)"
| "truthy (JStr s) = (s \<noteq> [])"
| "truthy (JArr xs) = (xs \<noteq> [])"
| "truthy (JObj kvs) = (kvs \<noteq> [])"

text \<open>The name Python prints for the type of a decoded value.\<close>

fun type_name :: "json \<Rightarrow> string" where
  "type_name JNull = ''NoneType''"
| "type_name (JBool b) = ''bool''"
| "type_name (JInt i) = ''int''"
| "type_name (JFloat f) = ''float''"
| "type_name (JStr s) = ''str''"
| "type_name (JArr xs) = ''list''"
| "type_name (JObj kvs) = ''dict''"

definition quoted :: "string \<Rightarrow> string" where
  "quoted s = [CHR 0x27] @ s @ [CHR 0x27]"

text \<open>
  \<open>data.get(key, default)\<close>. Only a \<open>dict\<close> has the method; on any other
  value the attribute lookup raises \<open>AttributeError\<close>. In a \<open>dict\<close> decoded from
  text with a repeated key the last member wins.
\<close>

fun py_get :: "json \<Rightarrow> string \<Rightarrow> json \<Rightarrow> pyexn + json" where
  "py_get (JObj kvs) key dflt =
     (case map_of (rev kvs) key of None \<Rightarrow> Inr dflt | Some v \<Rightarrow> Inr v)"
| "py_get d key dflt =
     Inl (PyExn ''AttributeError''
            (quoted (type_name d) @ '' object has no attribute '' @ quoted ''get''))"

section \<open>Request Relay (backend.py)\<close>

text \<open>
  What \<open>request.get_json()\<close> gives for the request at hand: the decoded body,
  or the exception Flask raises for a body it cannot decode.
\<close>

record request =
  get_json :: "pyexn + json"

text \<open>A Flask response: the status code and the JSON value handed to \<open>jsonify\<close>.\<close>

record response =
  status :: nat
  body :: json

definition jsonify :: "json \<Rightarrow> response" where
  "jsonify v = \<lparr>status = 200, body = v\<rparr>"

text \<open>Returning the pair \<open>(response, code)\<close> from a view sets the status code.\<close>

definition with_status :: "response \<Rightarrow> nat \<Rightarrow> response" where
  "with_status r code = r\<lparr>status := code\<rparr>"

text \<open>The keyword arguments of one \<open>lambda_client.invoke\<close> call.\<close>

record invocation =
  FunctionName :: string
  InvocationType :: string
  Payload :: string

text \<open>
  The reply of \<open>invoke\<close>: reading its \<open>Payload\<close> stream gives the bytes or raises.
\<close>

record lambda_response =
  Payload_read :: "pyexn + string"

text \<open>
  The collaborators of the handler that live outside the repository: the
  Lambda client and the \<open>json\<close> module. \<open>json.dumps\<close> does not raise on a value
  that was itself decoded from JSON.
\<close>

record relay_env =
  invoke :: "invocation \<Rightarrow> pyexn + lambda_response"
  dumps :: "json \<Rightarrow> string"
  loads :: "string \<Rightarrow> pyexn + json"

definition error_body :: "string \<Rightarrow> json" where
  "error_body text = JObj [(''error'', JStr text)]"

definition server_error :: "pyexn \<Rightarrow> response" where
  "server_error e = with_status (jsonify (error_body (str e))) 500"

text \<open>
  The arguments of the one \<open>invoke\<close> call the handler writes: the function
  name, the invocation type, and \<open>json.dumps({'message': message})\<close>.
\<close>

definition invoke_args :: "relay_env \<Rightarrow> json \<Rightarrow> invocation" where
  "invoke_args env message =
     \<lparr>FunctionName = ''agent_lambda'',
      InvocationType = ''RequestResponse'',
      Payload = dumps env (JObj [(''message'', message)])\<rparr>"

text \<open>
  The view function. Its result is the response it returns, or the exception
  that leaves it, together with the \<open>invoke\<close> calls it made, in order.
  Lines 13 and 14 stand before the \<open>try\<close>; everything from the construction of
  the payload to \<open>jsonify(result)\<close> stands inside it.
\<close>

definition agent :: "relay_env \<Rightarrow> request \<Rightarrow> (pyexn + response) \<times> invocation list" where
  "agent env req =
     (case get_json req of
        Inl e \<Rightarrow> (Inl e, [])
      | Inr data \<Rightarrow>
          (case py_get data ''message'' (JStr '''') of
             Inl e \<Rightarrow> (Inl e, [])
           | Inr message \<Rightarrow>
               if \<not> truthy message then
                 (Inr (with_status (jsonify (error_body ''No message provided'')) 400), [])
               else
                 let call = invoke_args env message
                 in (case invoke env call of
                       Inl e \<Rightarrow> (Inr (server_error e), [call])
                     | Inr resp \<Rightarrow>
                         (case Payload_read resp of
                            Inl e \<Rightarrow> (Inr (server_error e), [call])
                          | Inr text \<Rightarrow>
                              (case loads env text of
                                 Inl e \<Rightarrow> (Inr (server_error e), [call])
                               | Inr result \<Rightarrow> (Inr (jsonify result), [call]))))))"

text \<open>The member a request body holds under \<open>message\<close>, if it is an object.\<close>

definition message_of :: "request \<Rightarrow> json option" where
  "message_of req =
     (case get_json req of
        Inr (JObj kvs) \<Rightarrow> map_of (rev kvs) ''message''
      | _ \<Rightarrow> None)"

definition is_object_body :: "request \<Rightarrow> bool" where
  "is_object_body req = (case get_json req of Inr (JObj kvs) \<Rightarrow> True | _ \<Rightarrow> False)"

text \<open>The caller is handed a response whose body is a JSON object.\<close>

definition json_object_reply :: "pyexn + response \<Rightarrow> bool" where
  "json_object_reply out =
     (case out of
        Inl e \<Rightarrow> False
      | Inr r \<Rightarrow> (case body r of JObj kvs \<Rightarrow> True | _ \<Rightarrow> False))"

section \<open>Event Logger (function_app.py)\<close>

text \<open>
  The event as the handler reads it: what \<open>event.get_json()\<close> gives, and the two
  properties. A property that was never set reads as \<open>None\<close>.
\<close>

record event_grid_event =
  ev_get_json :: "pyexn + json"
  subject :: "string option"
  event_type :: "string option"

datatype log_level = DEBUG | INFO | WARNING | ERROR | CRITICAL

record log_record =
  level :: log_level
  msg :: string

definition logging_info :: "string \<Rightarrow> log_record" where
  "logging_info text = \<lparr>level = INFO, msg = text\<rparr>"

text \<open>How an f-string prints an optional string.\<close>

fun fmt :: "string option \<Rightarrow> string" where
  "fmt None = ''None''"
| "fmt (Some s) = s"

text \<open>
  The trigger function, over the \<open>json.dumps\<close> of the library. Its result is
  \<open>None\<close> or the exception that leaves it, with the log records it wrote.
\<close>

definition main :: "(json \<Rightarrow> string) \<Rightarrow> event_grid_event \<Rightarrow> (pyexn + unit) \<times> log_record list" where
  "main json_dumps event =
     (case ev_get_json event of
        Inl e \<Rightarrow> (Inl e, [])
      | Inr data \<Rightarrow>
          (Inr (),
           [logging_info (''Event received: '' @ json_dumps data),
            logging_info (''Subject: '' @ fmt (subject event)),
            logging_info (''Event Type: '' @ fmt (event_type event))]))"

section \<open>Reference environments\<close>

definition dq :: "string \<Rightarrow> string" where
  "dq s = [CHR 0x22] @ s @ [CHR 0x22]"

text \<open>A stand-in for \<open>json.dumps\<close> that prints objects with one text member.\<close>

fun flat_dumps :: "json \<Rightarrow> string" where
  "flat_dumps (JObj [(k, JStr s)]) = ''{'' @ dq k @ '': '' @ dq s @ ''}''"
| "flat_dumps v = ''null''"

definition reply_text :: string where
  "reply_text = ''{'' @ dq ''reply'' @ '': '' @ dq ''hello'' @ ''}''"

definition reply_value :: json where
  "reply_value = JObj [(''reply'', JStr ''hello'')]"

definition decode_error :: pyexn where
  "decode_error = PyExn ''JSONDecodeError'' ''Expecting value: line 1 column 1 (char 0)''"

text \<open>A decoder that knows two texts.\<close>

definition small_loads :: "string \<Rightarrow> pyexn + json" where
  "small_loads t =
     (if t = reply_text then Inr reply_value
      else if t = ''5'' then Inr (JInt 5)
      else Inl decode_error)"

text \<open>The function answers every call with \<open>{"reply": "hello"}\<close>.\<close>

definition echo_env :: relay_env where
  "echo_env = \<lparr>invoke = (\<lambda>c. Inr \<lparr>Payload_read = Inr reply_text\<rparr>),
               dumps = flat_dumps, loads = small_loads\<rparr>"

text \<open>The function answers with the text \<open>5\<close>.\<close>

definition five_env :: relay_env where
  "five_env = echo_env\<lparr>invoke := (\<lambda>c. Inr \<lparr>Payload_read = Inr ''5''\<rparr>)\<rparr>"

text \<open>The service cannot be reached.\<close>

definition down_env :: relay_env where
  "down_env = echo_env\<lparr>invoke :=
     (\<lambda>c. Inl (PyExn ''EndpointConnectionError'' ''Could not connect to the endpoint URL''))\<rparr>"

text \<open>The reply stream breaks while it is read.\<close>

definition broken_env :: relay_env where
  "broken_env = echo_env\<lparr>invoke :=
     (\<lambda>c. Inr \<lparr>Payload_read = Inl (PyExn ''ReadTimeoutError'' ''Read timed out'')\<rparr>)\<rparr>"

text \<open>The function answers with text that is not JSON.\<close>

definition garbled_env :: relay_env where
  "garbled_env = echo_env\<lparr>invoke := (\<lambda>c. Inr \<lparr>Payload_read = Inr ''not json''\<rparr>)\<rparr>"

definition req_of :: "json \<Rightarrow> request" where
  "req_of v = \<lparr>get_json = Inr v\<rparr>"

definition bad_request :: pyexn where
  "bad_request = PyExn ''BadRequest'' ''400 Bad Request: Failed to decode JSON object''"

definition blob_event :: event_grid_event where
  "blob_event = \<lparr>ev_get_json = Inr (JObj [(''url'', JStr ''https://x/a.txt'')]),
                 subject = Some ''/blobServices/default/containers/c/blobs/a.txt'',
                 event_type = Some ''Microsoft.Storage.BlobCreated''\<rparr>"

section \<open>Properties of the Request Relay\<close>

lemma agent_falsy:
  assumes "get_json req = Inr (JObj kvs)"
    and "\<not> truthy (case map_of (rev kvs) ''message'' of None \<Rightarrow> JStr '''' | Some v \<Rightarrow> v)"
  shows "agent env req =
           (Inr \<lparr>status = 400, body = JObj [(''error'', JStr ''No message provided'')]\<rparr>, [])"
  using assms
  by (simp add: agent_def with_status_def jsonify_def error_body_def split: option.splits)

lemma is_object_bodyE:
  assumes "is_object_body req"
  obtains kvs where "get_json req = Inr (JObj kvs)"
  using assms by (auto simp: is_object_body_def split: sum.splits json.splits)

lemma message_ofE:
  assumes "message_of req = Some m"
  obtains kvs where "get_json req = Inr (JObj kvs)" and "map_of (rev kvs) ''message'' = Some m"
  using assms by (auto simp: message_of_def split: sum.splits json.splits)

text \<open>
  Claim C1. When the body of the request is a JSON object in which \<open>message\<close> is
  absent or is the empty string, the handler answers with status 400 and the
  body \<open>{"error": "No message provided"}\<close>, and it has made no call of the
  external compute function.
\<close>

theorem agent_missing_message:
  assumes "is_object_body req"
    and "message_of req = None \<or> message_of req = Some (JStr '''')"
  shows "agent env req =
           (Inr \<lparr>status = 400, body = JObj [(''error'', JStr ''No message provided'')]\<rparr>, [])"
proof -
  from assms(1) obtain kvs where b: "get_json req = Inr (JObj kvs)"
    by (rule is_object_bodyE)
  with assms(2) have "\<not> truthy (case map_of (rev kvs) ''message'' of
                                   None \<Rightarrow> JStr '''' | Some v \<Rightarrow> v)"
    by (auto simp: message_of_def)
  with b show ?thesis by (rule agent_falsy)
qed

theorem agent_missing_message_witness:
  "agent echo_env (req_of (JObj [(''user'', JStr ''ann'')])) =
     (Inr \<lparr>status = 400, body = JObj [(''error'', JStr ''No message provided'')]\<rparr>, [])
   \<and> agent echo_env (req_of (JObj [(''message'', JStr '''')])) =
     (Inr \<lparr>status = 400, body = JObj [(''error'', JStr ''No message provided'')]\<rparr>, [])"
  using agent_missing_message [of "req_of (JObj [(''user'', JStr ''ann'')])" echo_env]
        agent_missing_message [of "req_of (JObj [(''message'', JStr '''')])" echo_env]
  by (simp add: req_of_def message_of_def is_object_body_def)

text \<open>What the handler does once the validation has passed.\<close>

lemma agent_truthy:
  assumes "message_of req = Some m" and "truthy m"
  shows "agent env req =
           (let call = invoke_args env m
            in (case invoke env call of
                  Inl e \<Rightarrow> (Inr (server_error e), [call])
                | Inr resp \<Rightarrow>
                    (case Payload_read resp of
                       Inl e \<Rightarrow> (Inr (server_error e), [call])
                     | Inr text \<Rightarrow>
                         (case loads env text of
                            Inl e \<Rightarrow> (Inr (server_error e), [call])
                          | Inr result \<Rightarrow> (Inr (jsonify result), [call])))))"
proof -
  from assms(1) obtain kvs where "get_json req = Inr (JObj kvs)"
    and "map_of (rev kvs) ''message'' = Some m"
    by (rule message_ofE)
  with assms(2) show ?thesis by (simp add: agent_def)
qed

lemma agent_calls_once:
  assumes "message_of req = Some m" and "truthy m"
  shows "snd (agent env req) =
           [\<lparr>FunctionName = ''agent_lambda'', InvocationType = ''RequestResponse'',
             Payload = dumps env (JObj [(''message'', m)])\<rparr>]"
  by (simp add: agent_truthy [OF assms] invoke_args_def Let_def split: sum.splits)

lemma server_error_eq:
  "server_error e = \<lparr>status = 500, body = JObj [(''error'', JStr (str e))]\<rparr>"
  by (simp add: server_error_def with_status_def jsonify_def error_body_def)

text \<open>
  Claim C2. When the body is a JSON object that holds a non-empty text under
  \<open>message\<close>, the handler makes exactly one call of the external compute
  function (whether or not that call succeeds): \<open>agent_lambda\<close> is invoked in
  request/response mode, and its payload is the JSON text of
  \<open>{"message": message}\<close>.
\<close>

theorem agent_invokes_once:
  assumes "message_of req = Some (JStr s)" and "s \<noteq> []"
  shows "snd (agent env req) =
           [\<lparr>FunctionName = ''agent_lambda'', InvocationType = ''RequestResponse'',
             Payload = dumps env (JObj [(''message'', JStr s)])\<rparr>]"
  using assms by (intro agent_calls_once) simp_all

theorem agent_invokes_once_witness:
  "snd (agent down_env (req_of (JObj [(''message'', JStr ''hi'')]))) =
     [\<lparr>FunctionName = ''agent_lambda'', InvocationType = ''RequestResponse'',
       Payload = ''{'' @ dq ''message'' @ '': '' @ dq ''hi'' @ ''}''\<rparr>]
   \<and> snd (agent echo_env (req_of (JObj [(''message'', JStr ''hi'')]))) =
     [\<lparr>FunctionName = ''agent_lambda'', InvocationType = ''RequestResponse'',
       Payload = ''{'' @ dq ''message'' @ '': '' @ dq ''hi'' @ ''}''\<rparr>]"
  using agent_invokes_once [of "req_of (JObj [(''message'', JStr ''hi'')])" "''hi''" down_env]
        agent_invokes_once [of "req_of (JObj [(''message'', JStr ''hi'')])" "''hi''" echo_env]
  by (simp add: req_of_def message_of_def down_env_def echo_env_def)

text \<open>
  Claim C3. When the external compute function returns a text that decodes to
  the JSON value \<open>V\<close>, the handler answers with status 200 and the body \<open>V\<close>
  itself: the decoded value is what \<open>jsonify\<close> is given. The reference
  environment returns \<open>{"reply": "hello"}\<close>, and that is the body.
\<close>

theorem agent_relays_result:
  assumes "message_of req = Some m" and "truthy m"
    and "invoke env (invoke_args env m) = Inr resp"
    and "Payload_read resp = Inr text"
    and "loads env text = Inr V"
  shows "fst (agent env req) = Inr \<lparr>status = 200, body = V\<rparr>"
  using assms(3-5) by (simp add: agent_truthy [OF assms(1,2)] jsonify_def)

theorem agent_relays_result_witness:
  "loads echo_env reply_text = Inr (JObj [(''reply'', JStr ''hello'')])
   \<and> fst (agent echo_env (req_of (JObj [(''message'', JStr ''hi'')]))) =
       Inr \<lparr>status = 200, body = JObj [(''reply'', JStr ''hello'')]\<rparr>"
  using agent_relays_result [of "req_of (JObj [(''message'', JStr ''hi'')])" "JStr ''hi''"
          echo_env "\<lparr>Payload_read = Inr reply_text\<rparr>" reply_text reply_value]
  by (simp add: req_of_def message_of_def echo_env_def small_loads_def reply_value_def)

text \<open>
  Claim C4. Once the validation has passed, an exception \<open>e\<close> raised by the
  invocation, by reading the reply or by decoding it makes the handler answer
  with status 500 and the body \<open>{"error": str(e)}\<close>; the three kinds of failure
  give the same shape of response.
\<close>

theorem agent_failure_is_500:
  assumes "message_of req = Some m" and "truthy m"
    and "invoke env (invoke_args env m) = Inl e
         \<or> (\<exists>resp. invoke env (invoke_args env m) = Inr resp
                     \<and> Payload_read resp = Inl e)
         \<or> (\<exists>resp text. invoke env (invoke_args env m) = Inr resp
                     \<and> Payload_read resp = Inr text \<and> loads env text = Inl e)"
  shows "fst (agent env req) = Inr \<lparr>status = 500, body = JObj [(''error'', JStr (str e))]\<rparr>"
  using assms(3) by (auto simp: agent_truthy [OF assms(1,2)] server_error_eq)

theorem agent_failure_is_500_witness:
  "fst (agent down_env (req_of (JObj [(''message'', JStr ''hi'')]))) =
     Inr \<lparr>status = 500,
          body = JObj [(''error'', JStr ''Could not connect to the endpoint URL'')]\<rparr>
   \<and> fst (agent broken_env (req_of (JObj [(''message'', JStr ''hi'')]))) =
     Inr \<lparr>status = 500, body = JObj [(''error'', JStr ''Read timed out'')]\<rparr>
   \<and> fst (agent garbled_env (req_of (JObj [(''message'', JStr ''hi'')]))) =
     Inr \<lparr>status = 500,
          body = JObj [(''error'', JStr ''Expecting value: line 1 column 1 (char 0)'')]\<rparr>"
  using agent_failure_is_500 [of "req_of (JObj [(''message'', JStr ''hi'')])" "JStr ''hi''"
          down_env "PyExn ''EndpointConnectionError'' ''Could not connect to the endpoint URL''"]
        agent_failure_is_500 [of "req_of (JObj [(''message'', JStr ''hi'')])" "JStr ''hi''"
          broken_env "PyExn ''ReadTimeoutError'' ''Read timed out''"]
        agent_failure_is_500 [of "req_of (JObj [(''message'', JStr ''hi'')])" "JStr ''hi''"
          garbled_env decode_error]
  by (simp add: req_of_def message_of_def down_env_def broken_env_def garbled_env_def
        echo_env_def small_loads_def reply_text_def dq_def decode_error_def)

text \<open>The values that \<open>not message\<close> accepts as missing.\<close>

lemma falsy_values:
  "\<not> truthy m \<longleftrightarrow>
     m \<in> {JNull, JBool False, JInt 0, JFloat (Finite 0), JStr '''', JArr [], JObj []}"
  by (cases m) auto

text \<open>
  Claim C9. When the body is a JSON object that holds under \<open>message\<close> a value
  that is false in Python and is not a text (\<open>0\<close>, \<open>0.0\<close>, \<open>false\<close>, \<open>null\<close>, an
  empty list or an empty object), the handler gives the answer it gives for a
  missing message: status 400, the body \<open>{"error": "No message provided"}\<close>, and
  no call of the external compute function.
\<close>

theorem agent_falsy_message:
  assumes "message_of req = Some m"
    and "m \<in> {JNull, JBool False, JInt 0, JFloat (Finite 0), JArr [], JObj []}"
  shows "agent env req =
           (Inr \<lparr>status = 400, body = JObj [(''error'', JStr ''No message provided'')]\<rparr>, [])"
proof -
  from assms(1) obtain kvs where b: "get_json req = Inr (JObj kvs)"
    and m: "map_of (rev kvs) ''message'' = Some m"
    by (rule message_ofE)
  from assms(2) have "\<not> truthy m" by auto
  with m have "\<not> truthy (case map_of (rev kvs) ''message'' of
                            None \<Rightarrow> JStr '''' | Some v \<Rightarrow> v)"
    by simp
  with b show ?thesis by (rule agent_falsy)
qed

theorem agent_falsy_message_witness:
  "agent echo_env (req_of (JObj [(''message'', JInt 0)])) =
       (Inr \<lparr>status = 400, body = JObj [(''error'', JStr ''No message provided'')]\<rparr>, [])
   \<and> agent echo_env (req_of (JObj [(''message'', JBool False)])) =
       (Inr \<lparr>status = 400, body = JObj [(''error'', JStr ''No message provided'')]\<rparr>, [])
   \<and> agent echo_env (req_of (JObj [(''message'', JNull)])) =
       (Inr \<lparr>status = 400, body = JObj [(''error'', JStr ''No message provided'')]\<rparr>, [])
   \<and> agent echo_env (req_of (JObj [(''message'', JArr [])])) =
       (Inr \<lparr>status = 400, body = JObj [(''error'', JStr ''No message provided'')]\<rparr>, [])
   \<and> agent echo_env (req_of (JObj [(''message'', JObj [])])) =
       (Inr \<lparr>status = 400, body = JObj [(''error'', JStr ''No message provided'')]\<rparr>, [])
   \<and> agent echo_env (req_of (JObj [(''message'', JFloat (Finite 0))])) =
       (Inr \<lparr>status = 400, body = JObj [(''error'', JStr ''No message provided'')]\<rparr>, [])"
  using agent_falsy_message [of "req_of (JObj [(''message'', JInt 0)])" "JInt 0" echo_env]
        agent_falsy_message [of "req_of (JObj [(''message'', JBool False)])" "JBool False" echo_env]
        agent_falsy_message [of "req_of (JObj [(''message'', JNull)])" "JNull" echo_env]
        agent_falsy_message [of "req_of (JObj [(''message'', JArr [])])" "JArr []" echo_env]
        agent_falsy_message [of "req_of (JObj [(''message'', JObj [])])" "JObj []" echo_env]
        agent_falsy_message [of "req_of (JObj [(''message'', JFloat (Finite 0))])" "JFloat (Finite 0)" echo_env]
  by (simp add: req_of_def message_of_def)

text \<open>
  Claim C10. When the body is a JSON object that holds under \<open>message\<close> a value
  that is true in Python, of whatever type, the validation passes: the answer
  is not the 400 response, and the one call made carries the JSON text of
  \<open>{"message": message}\<close> with the value as it came. The handler never asks
  whether the value is a text.
\<close>

theorem agent_forwards_truthy:
  assumes "message_of req = Some m" and "truthy m"
  shows "snd (agent env req) =
           [\<lparr>FunctionName = ''agent_lambda'', InvocationType = ''RequestResponse'',
             Payload = dumps env (JObj [(''message'', m)])\<rparr>]
         \<and> fst (agent env req) \<noteq>
             Inr \<lparr>status = 400, body = JObj [(''error'', JStr ''No message provided'')]\<rparr>"
proof
  show "snd (agent env req) =
          [\<lparr>FunctionName = ''agent_lambda'', InvocationType = ''RequestResponse'',
            Payload = dumps env (JObj [(''message'', m)])\<rparr>]"
    using assms by (rule agent_calls_once)
  show "fst (agent env req) \<noteq>
          Inr \<lparr>status = 400, body = JObj [(''error'', JStr ''No message provided'')]\<rparr>"
    by (simp add: agent_truthy [OF assms] Let_def server_error_eq jsonify_def
          split: sum.splits)
qed

theorem agent_forwards_truthy_witness:
  "snd (agent echo_env (req_of (JObj [(''message'', JInt 7)]))) =
     [\<lparr>FunctionName = ''agent_lambda'', InvocationType = ''RequestResponse'',
       Payload = dumps echo_env (JObj [(''message'', JInt 7)])\<rparr>]
   \<and> snd (agent echo_env (req_of (JObj [(''message'', JArr [JNull])]))) =
     [\<lparr>FunctionName = ''agent_lambda'', InvocationType = ''RequestResponse'',
       Payload = dumps echo_env (JObj [(''message'', JArr [JNull])])\<rparr>]
   \<and> fst (agent echo_env (req_of (JObj [(''message'', JObj [(''a'', JBool False)])]))) =
       Inr \<lparr>status = 200, body = JObj [(''reply'', JStr ''hello'')]\<rparr>"
  using agent_forwards_truthy [of "req_of (JObj [(''message'', JInt 7)])" "JInt 7" echo_env]
        agent_forwards_truthy [of "req_of (JObj [(''message'', JArr [JNull])])" "JArr [JNull]"
          echo_env]
  by (simp add: req_of_def message_of_def agent_def invoke_args_def echo_env_def
        small_loads_def reply_value_def jsonify_def)

text \<open>
  A body that is no JSON object makes the handler raise before any call: the
  exception of \<open>get_json\<close> leaves it as it is, and a decoded value that is no
  \<open>dict\<close> makes \<open>data.get\<close> raise \<open>AttributeError\<close>.
\<close>

lemma agent_get_json_raises:
  assumes "get_json req = Inl e"
  shows "agent env req = (Inl e, [])"
  using assms by (simp add: agent_def)

lemma agent_no_dict:
  assumes "get_json req = Inr d" and "\<not> is_object_body req"
  shows "agent env req =
           (Inl (PyExn ''AttributeError''
                   (quoted (type_name d) @ '' object has no attribute '' @ quoted ''get'')),
            [])"
  using assms by (cases d) (simp_all add: agent_def is_object_body_def)

text \<open>
  Claim C7, as stated: every request is answered with a response whose body is
  a JSON object. It fails in three places: on a body that is a JSON list the
  attribute lookup \<open>data.get\<close> raises outside the \<open>try\<close>; on a body that is not
  JSON the exception of \<open>get_json\<close> leaves the handler; and when the function
  returns the text \<open>5\<close> the body of the answer is the number 5.
\<close>

theorem agent_object_reply_counterexample:
  "\<not> json_object_reply (fst (agent echo_env (req_of (JArr []))))
   \<and> \<not> json_object_reply (fst (agent echo_env \<lparr>get_json = Inl bad_request\<rparr>))
   \<and> \<not> json_object_reply (fst (agent five_env (req_of (JObj [(''message'', JStr ''hi'')]))))"
  by (simp add: json_object_reply_def agent_def req_of_def invoke_args_def five_env_def
        echo_env_def small_loads_def reply_text_def dq_def jsonify_def)

text \<open>
  Claim C7, amended. When the body of the request decodes to a JSON object the
  handler returns a response with a JSON body: either the value decoded from
  the reply of the external function, with status 200 and whatever JSON value
  it is, or an object with the single field \<open>error\<close>. When the body is not
  JSON or is no JSON object, the handler returns no response: the exception
  that \<open>request.get_json()\<close> raised leaves it unchanged, or the
  \<open>AttributeError\<close> that \<open>data.get\<close> raises on a value without that method
  does, and the external function has not been called.
\<close>

theorem agent_reply_shape:
  "if is_object_body req then
     (\<exists>r. fst (agent env req) = Inr r \<and>
        ((status r = 200 \<and>
          (\<exists>m resp text. message_of req = Some m \<and>
              invoke env (invoke_args env m) = Inr resp \<and>
              Payload_read resp = Inr text \<and> loads env text = Inr (body r)))
         \<or> (\<exists>text. body r = JObj [(''error'', JStr text)])))
   else
     (case get_json req of
        Inl e \<Rightarrow> agent env req = (Inl e, [])
      | Inr d \<Rightarrow>
          agent env req =
            (Inl (PyExn ''AttributeError''
                    (quoted (type_name d) @ '' object has no attribute '' @ quoted ''get'')),
             []))"
proof (cases "is_object_body req")
  case False
  then show ?thesis
    by (simp add: agent_get_json_raises agent_no_dict split: sum.splits)
next
  case True
  then obtain kvs where b: "get_json req = Inr (JObj kvs)"
    by (rule is_object_bodyE)
  let ?m = "case map_of (rev kvs) ''message'' of None \<Rightarrow> JStr '''' | Some v \<Rightarrow> v"
  have "\<exists>r. fst (agent env req) = Inr r \<and>
        ((status r = 200 \<and>
          (\<exists>m resp text. message_of req = Some m \<and>
              invoke env (invoke_args env m) = Inr resp \<and>
              Payload_read resp = Inr text \<and> loads env text = Inr (body r)))
         \<or> (\<exists>text. body r = JObj [(''error'', JStr text)]))"
  proof (cases "truthy ?m")
    case False
    with b have "agent env req =
       (Inr \<lparr>status = 400, body = JObj [(''error'', JStr ''No message provided'')]\<rparr>, [])"
      by (rule agent_falsy)
    then show ?thesis by simp
  next
    case t: True
    then obtain m where m: "map_of (rev kvs) ''message'' = Some m" and tm: "truthy m"
      by (cases "map_of (rev kvs) ''message''") simp_all
    from b m have mo: "message_of req = Some m" by (simp add: message_of_def)
    show ?thesis
      by (simp add: agent_truthy [OF mo tm] Let_def server_error_eq jsonify_def mo
            split: sum.splits)
  qed
  with True show ?thesis by simp
qed

theorem agent_reply_shape_witness:
  "is_object_body (req_of (JObj [(''message'', JStr ''hi'')]))
   \<and> fst (agent five_env (req_of (JObj [(''message'', JStr ''hi'')]))) =
       Inr \<lparr>status = 200, body = JInt 5\<rparr>
   \<and> \<not> is_object_body (req_of (JArr []))
   \<and> agent five_env (req_of (JArr [])) =
       (Inl (PyExn ''AttributeError''
               (quoted ''list'' @ '' object has no attribute '' @ quoted ''get'')), [])
   \<and> agent five_env (req_of JNull) =
       (Inl (PyExn ''AttributeError''
               (quoted ''NoneType'' @ '' object has no attribute '' @ quoted ''get'')), [])
   \<and> \<not> is_object_body \<lparr>get_json = Inl bad_request\<rparr>
   \<and> agent five_env \<lparr>get_json = Inl bad_request\<rparr> = (Inl bad_request, [])"
  using agent_reply_shape [of "req_of (JObj [(''message'', JStr ''hi'')])" five_env]
        agent_reply_shape [of "req_of (JArr [])" five_env]
        agent_reply_shape [of "req_of JNull" five_env]
        agent_reply_shape [of "\<lparr>get_json = Inl bad_request\<rparr>" five_env]
  by (simp add: is_object_body_def req_of_def agent_def invoke_args_def five_env_def
        echo_env_def small_loads_def reply_text_def dq_def jsonify_def)

section \<open>Properties of the Event Logger\<close>

text \<open>
  Claim C5. For an event whose payload can be read and whose subject and event
  type are set, the handler writes exactly three records at level INFO, in
  this order: the serialised payload, the subject, the event type; and it
  returns \<open>None\<close> without raising.
\<close>

theorem main_logs_three:
  assumes "ev_get_json event = Inr data"
    and "subject event = Some s"
    and "event_type event = Some t"
  shows "main json_dumps event =
           (Inr (),
            [\<lparr>level = INFO, msg = ''Event received: '' @ json_dumps data\<rparr>,
             \<lparr>level = INFO, msg = ''Subject: '' @ s\<rparr>,
             \<lparr>level = INFO, msg = ''Event Type: '' @ t\<rparr>])"
  using assms by (simp add: main_def logging_info_def)

theorem main_logs_three_witness:
  "main flat_dumps blob_event =
     (Inr (),
      [\<lparr>level = INFO,
        msg = ''Event received: '' @ ''{'' @ dq ''url'' @ '': '' @ dq ''https://x/a.txt'' @ ''}''\<rparr>,
       \<lparr>level = INFO, msg = ''Subject: /blobServices/default/containers/c/blobs/a.txt''\<rparr>,
       \<lparr>level = INFO, msg = ''Event Type: Microsoft.Storage.BlobCreated''\<rparr>])"
  using main_logs_three [of blob_event "JObj [(''url'', JStr ''https://x/a.txt'')]"
          "''/blobServices/default/containers/c/blobs/a.txt''"
          "''Microsoft.Storage.BlobCreated''" flat_dumps]
  by (simp add: blob_event_def)

text \<open>
  Claim C6. The handler catches nothing: when reading the payload of the event
  raises, that same exception leaves the handler, and no record has been
  written.
\<close>

theorem main_propagates:
  assumes "ev_get_json event = Inl e"
  shows "main json_dumps event = (Inl e, [])"
  using assms by (simp add: main_def)

theorem main_propagates_witness:
  "main flat_dumps (blob_event\<lparr>ev_get_json := Inl decode_error\<rparr>) = (Inl decode_error, [])"
  using main_propagates [of "blob_event\<lparr>ev_get_json := Inl decode_error\<rparr>" decode_error
          flat_dumps]
  by simp

end
